theory Spec2Isabelle
  imports Complex_Main "HOL-Library.Multiset"
begin

section \<open>The learning engine of WordExamRush (src/src/App.vue)\<close>

text \<open>
  The script block of \<^verbatim>\<open>App.vue\<close> keeps its state in module-level refs and changes it
  from click handlers. The embedding passes that state explicitly: every handler is a
  function from the state before the click to the state after it.

  Conventions of the embedding.
  \<^item> A JavaScript \<^verbatim>\<open>number\<close> holding a weight is a \<^typ>\<open>real\<close>: arithmetic is exact,
    there is no rounding, no infinity and no NaN. The counter \<^verbatim>\<open>occurrences\<close> only
    ever holds 0, 1, 2, ... and is a \<^typ>\<open>nat\<close>.
  \<^item> \<^verbatim>\<open>currentWord\<close> holds a reference to one of the objects of \<^verbatim>\<open>wordList\<close>, and
    \<^verbatim>\<open>updateWordWeight\<close> mutates the pool through it. Objects are never removed from
    \<^verbatim>\<open>wordList\<close> nor reordered (\<^verbatim>\<open>addWords\<close> appends), so a reference to a pool object
    is its position in \<^verbatim>\<open>wordList\<close>; \<^verbatim>\<open>null\<close> is \<^term>\<open>None\<close>. Two entries with the
    same text are two objects, hence two positions.
  \<^item> \<^verbatim>\<open>Math.random()\<close> is an argument \<open>rnd\<close> of the handlers that draw. The
    engine returns a number from 0 up to, not including, 1; the definitions accept any
    number, and a property that needs the range says so.
  \<^item> \<^verbatim>\<open>JSON.parse(jsonInput.value)\<close> is an argument of \<^verbatim>\<open>addWords\<close>: the outcome of
    the parse, read at the declared type \<^verbatim>\<open>Word[]\<close>, where a field may be absent.
  \<^item> A \<^verbatim>\<open>throw\<close> is returned as a value next to the state reached when it happened.
\<close>

subsection \<open>Data (src/unnamed/part\_000, the types of ./types/word)\<close>

text \<open>
  \<^verbatim>\<open>interface Word { word: string; part_of_speech: string; explanation: string[] }\<close>.
  The records come out of \<^verbatim>\<open>JSON.parse\<close>, so a field can be missing (or, for
  \<^verbatim>\<open>explanation\<close>, not an array): that is \<^term>\<open>None\<close>.
\<close>

record Word =
  word :: "string option"
  part_of_speech :: "string option"
  explanation :: "string list option"

record WordWithWeight = Word +
  weight :: real
  occurrences :: nat
  totalWeight :: real

text \<open>
  \<^verbatim>\<open>interface LearningResult { word; unfamiliarity; occurrences; totalWeight }\<close>. The
  fields copied from the entry carry the prefix \<open>result_\<close>, since a field name
  denotes one selector only.
\<close>

record LearningResult =
  result_word :: "string option"
  unfamiliarity :: real
  result_occurrences :: nat
  result_totalWeight :: real

datatype view = Home | Learning | Result

datatype action = Unknown | Vague | Known

text \<open>
  The errors thrown by \<^verbatim>\<open>addWords\<close>. The messages are Chinese text with the numbers
  \<^verbatim>\<open>index + 1\<close> and \<^verbatim>\<open>expIndex + 1\<close> spliced in; a constructor stands for the
  message and carries the numbers that appear in it:
  \<^item> \<open>NotAnArray\<close>: "the JSON input must be an array";
  \<^item> \<open>MissingWord n\<close>: "word number n lacks a valid word field";
  \<^item> \<open>MissingPartOfSpeech n\<close>: "word number n lacks a valid part\_of\_speech field";
  \<^item> \<open>MissingExplanation n\<close>: "word number n lacks a valid explanation array";
  \<^item> \<open>InvalidExplanation n m\<close>: "explanation number m of word number n is invalid".
\<close>

datatype error =
    NotAnArray
  | MissingWord nat
  | MissingPartOfSpeech nat
  | MissingExplanation nat
  | InvalidExplanation nat nat

text \<open>
  What \<^verbatim>\<open>JSON.parse(jsonInput.value)\<close> did: it threw (with a message), it returned
  something that is not an array, or it returned an array of records.
\<close>

datatype parsed = ParseFailure string | NoArray | Records "Word list"

text \<open>
  \<^verbatim>\<open>successMessage\<close> is either the empty string or "added n words" (Chinese text with
  the number spliced in).
\<close>

datatype success = NoSuccess | Added nat

record app =
  currentView :: view
  jsonInput :: string
  wordList :: "WordWithWeight list"
  errorMessage :: string
  successMessage :: success
  currentWord :: "nat option"
  isCardFlipped :: bool
  learningResults :: "LearningResult list"

subsection \<open>addWords (lines 26-74)\<close>

text \<open>\<^verbatim>\<open>!s\<close> for a string field that may be absent: true when absent or empty.\<close>

definition falsy :: "string option \<Rightarrow> bool" where
  "falsy s = (case s of None \<Rightarrow> True | Some t \<Rightarrow> t = [])"

text \<open>The inner \<^verbatim>\<open>forEach((exp, expIndex) => ...)\<close> of lines 56-60.\<close>

fun checkExplanations :: "nat \<Rightarrow> nat \<Rightarrow> string list \<Rightarrow> error option" where
  "checkExplanations index expIndex [] = None"
| "checkExplanations index expIndex (expl # exps) =
     (if length expl = 0 then Some (InvalidExplanation (index + 1) (expIndex + 1))
      else checkExplanations index (expIndex + 1) exps)"

text \<open>The body of the outer \<^verbatim>\<open>forEach((word, index) => ...)\<close>, lines 45-60.\<close>

definition checkWord :: "nat \<Rightarrow> Word \<Rightarrow> error option" where
  "checkWord index w =
     (if falsy (word w) then Some (MissingWord (index + 1))
      else if falsy (part_of_speech w) then Some (MissingPartOfSpeech (index + 1))
      else (case explanation w of
              None \<Rightarrow> Some (MissingExplanation (index + 1))
            | Some exps \<Rightarrow>
                if length exps = 0 then Some (MissingExplanation (index + 1))
                else checkExplanations index 0 exps))"

text \<open>The outer loop, lines 44-61: the first throw ends it.\<close>

fun checkWords :: "nat \<Rightarrow> Word list \<Rightarrow> error option" where
  "checkWords index [] = None"
| "checkWords index (w # ws) =
     (case checkWord index w of
        Some e \<Rightarrow> Some e
      | None \<Rightarrow> checkWords (index + 1) ws)"

text \<open>Lines 64-69: \<^verbatim>\<open>{...word, weight: 1.0, occurrences: 0, totalWeight: 0}\<close>.\<close>

definition withWeight :: "Word \<Rightarrow> WordWithWeight" where
  "withWeight w =
     \<lparr>word = word w, part_of_speech = part_of_speech w, explanation = explanation w,
      weight = 1.0, occurrences = 0, totalWeight = 0\<rparr>"

text \<open>
  \<^verbatim>\<open>addWords\<close>. The first component of the result is the exception that left the
  handler, if any; the second is the state at that moment (the two messages are
  cleared before anything can throw).
\<close>

definition addWords :: "parsed \<Rightarrow> app \<Rightarrow> error option \<times> app" where
  "addWords p s =
     (let s1 = s\<lparr>errorMessage := [], successMessage := NoSuccess\<rparr> in
      case p of
        ParseFailure msg \<Rightarrow> (None, s1\<lparr>errorMessage := msg\<rparr>)
      | NoArray \<Rightarrow> (Some NotAnArray, s1)
      | Records parsedWords \<Rightarrow>
          (case checkWords 0 parsedWords of
             Some e \<Rightarrow> (Some e, s1)
           | None \<Rightarrow>
               (let newWordsWithWeight = map withWeight parsedWords in
                (None, s1\<lparr>wordList := wordList s1 @ newWordsWithWeight,
                           successMessage := Added (length newWordsWithWeight),
                           jsonInput := []\<rparr>))))"

subsection \<open>endLearning (lines 169-186)\<close>

text \<open>The object built by the \<^verbatim>\<open>map\<close> callback, lines 174-182.\<close>

definition toResult :: "WordWithWeight \<Rightarrow> LearningResult" where
  "toResult w =
     \<lparr>result_word = word w,
      unfamiliarity = totalWeight w / real (occurrences w),
      result_occurrences = occurrences w,
      result_totalWeight = totalWeight w\<rparr>"

text \<open>The comparator of line 184: \<^verbatim>\<open>(a, b) => b.unfamiliarity - a.unfamiliarity\<close>.\<close>

definition compareFn :: "LearningResult \<Rightarrow> LearningResult \<Rightarrow> real" where
  "compareFn a b = unfamiliarity b - unfamiliarity a"

text \<open>
  \<^verbatim>\<open>Array.prototype.sort\<close> with a comparator is stable: \<open>a\<close> stays before \<open>b\<close>
  unless the comparator is positive on \<open>(a, b)\<close>. With a comparator that is a
  difference of keys the result does not depend on the engine's algorithm; it is
  computed here by insertion from the right.
\<close>

fun insertResult :: "LearningResult \<Rightarrow> LearningResult list \<Rightarrow> LearningResult list" where
  "insertResult a [] = [a]"
| "insertResult a (b # bs) =
     (if compareFn a b \<le> 0 then a # b # bs else b # insertResult a bs)"

fun sortResults :: "LearningResult list \<Rightarrow> LearningResult list" where
  "sortResults [] = []"
| "sortResults (a # as) = insertResult a (sortResults as)"

definition endLearning :: "app \<Rightarrow> app" where
  "endLearning s =
     s\<lparr>learningResults :=
          sortResults (map toResult (filter (\<lambda>w. occurrences w > 0) (wordList s))),
       currentView := Result\<rparr>"

subsection \<open>selectNextWord (lines 91-127)\<close>

text \<open>
  Line 93. The filtered array holds references to pool objects: the positions of the
  entries with \<^verbatim>\<open>weight >= 0.1\<close>, in pool order.
\<close>

definition eligibleWords :: "WordWithWeight list \<Rightarrow> nat list" where
  "eligibleWords wl = filter (\<lambda>i. weight (wl ! i) \<ge> 0.1) [0..<length wl]"

text \<open>Line 102: \<^verbatim>\<open>eligibleWords.reduce((sum, word) => sum + word.weight, 0)\<close>.\<close>

definition sumWeights :: "WordWithWeight list \<Rightarrow> nat list \<Rightarrow> real" where
  "sumWeights wl refs = foldl (\<lambda>sum i. sum + weight (wl ! i)) 0 refs"

text \<open>
  The loop of lines 111-117, started with \<^verbatim>\<open>cumulativeWeight\<close> and the entries still
  to visit: the reference it leaves in \<^verbatim>\<open>selectedWord\<close>.
\<close>

fun walk :: "WordWithWeight list \<Rightarrow> real \<Rightarrow> real \<Rightarrow> nat list \<Rightarrow> nat option" where
  "walk wl random cumulativeWeight [] = None"
| "walk wl random cumulativeWeight (i # refs) =
     (let cumulativeWeight' = cumulativeWeight + weight (wl ! i) in
      if random \<le> cumulativeWeight' then Some i
      else walk wl random cumulativeWeight' refs)"

text \<open>\<^verbatim>\<open>eligibleWords[0] || null\<close>, line 124.\<close>

definition firstOrNull :: "nat list \<Rightarrow> nat option" where
  "firstOrNull refs = (case refs of [] \<Rightarrow> None | i # _ \<Rightarrow> Some i)"

definition selectNextWord :: "real \<Rightarrow> app \<Rightarrow> app" where
  "selectNextWord rnd s =
     (let eligible = eligibleWords (wordList s) in
      if length eligible = 0 then endLearning s
      else
        (let totalWeight = sumWeights (wordList s) eligible;
             random = rnd * totalWeight
         in case walk (wordList s) random 0 eligible of
              Some selectedWord \<Rightarrow> s\<lparr>currentWord := Some selectedWord, isCardFlipped := False\<rparr>
            | None \<Rightarrow>
                if length eligible > 0
                then s\<lparr>currentWord := firstOrNull eligible, isCardFlipped := False\<rparr>
                else s))"

subsection \<open>startLearning (lines 77-88)\<close>

definition startLearning :: "real \<Rightarrow> app \<Rightarrow> app" where
  "startLearning rnd s =
     (if length (wordList s) = 0 then s
      else selectNextWord rnd (s\<lparr>learningResults := [], currentView := Learning\<rparr>))"

subsection \<open>updateWordWeight (lines 136-161)\<close>

text \<open>The \<^verbatim>\<open>switch\<close> of lines 140-150, on the weight of the current word.\<close>

definition applyAction :: "action \<Rightarrow> real \<Rightarrow> real" where
  "applyAction a x = (case a of Unknown \<Rightarrow> x * 2.16 | Vague \<Rightarrow> x | Known \<Rightarrow> x / 2.16)"

text \<open>Lines 140-154 on the object \<^verbatim>\<open>currentWord.value\<close>.\<close>

definition assessWord :: "action \<Rightarrow> WordWithWeight \<Rightarrow> WordWithWeight" where
  "assessWord a w =
     (let w1 = w\<lparr>weight := applyAction a (weight w)\<rparr>;
          w2 = w1\<lparr>occurrences := occurrences w1 + 1\<rparr>
      in w2\<lparr>totalWeight := totalWeight w2 + weight w2\<rparr>)"

definition updateWordWeight :: "action \<Rightarrow> real \<Rightarrow> app \<Rightarrow> app" where
  "updateWordWeight a rnd s =
     (case currentWord s of
        None \<Rightarrow> s
      | Some i \<Rightarrow>
          selectNextWord rnd
            (s\<lparr>wordList := (wordList s)[i := assessWord a (wordList s ! i)],
               isCardFlipped := False\<rparr>))"

subsection \<open>restartLearning (lines 194-207)\<close>

text \<open>The callback of lines 196-200.\<close>

definition resetWord :: "WordWithWeight \<Rightarrow> WordWithWeight" where
  "resetWord w = w\<lparr>weight := 1.0, occurrences := 0, totalWeight := 0\<rparr>"

definition restartLearning :: "real \<Rightarrow> app \<Rightarrow> app" where
  "restartLearning rnd s =
     startLearning rnd (s\<lparr>wordList := map resetWord (wordList s), learningResults := []\<rparr>)"

subsection \<open>backToHome (lines 189-191)\<close>

definition backToHome :: "app \<Rightarrow> app" where
  "backToHome s = s\<lparr>currentView := Home\<rparr>"

subsection \<open>Notions used to state the properties\<close>


text \<open>
  \<^verbatim>\<open>currentWord\<close> is \<^verbatim>\<open>null\<close> or refers to an entry of the pool.
\<close>

definition currentWordInPool :: "app \<Rightarrow> bool" where
  "currentWordInPool s =
     (case currentWord s of None \<Rightarrow> True | Some i \<Rightarrow> i < length (wordList s))"

text \<open>
  A record that the import has to reject, in the words of the specification: the word
  or the part of speech is missing or empty, the explanations are missing (or not an
  array) or empty, or one of the explanations is the empty string.
\<close>

definition invalidRecord :: "Word \<Rightarrow> bool" where
  "invalidRecord w \<longleftrightarrow>
     word w = None \<or> word w = Some [] \<or>
     part_of_speech w = None \<or> part_of_speech w = Some [] \<or>
     (case explanation w of None \<Rightarrow> True | Some exps \<Rightarrow> exps = [] \<or> [] \<in> set exps)"


text \<open>
  A learner who gives the same answer to every word presented: one call of
  \<^verbatim>\<open>updateWordWeight\<close> per element of the list, which holds the values of
  \<^verbatim>\<open>Math.random()\<close> drawn by the selections that follow the answers.
\<close>

fun answerAll :: "action \<Rightarrow> real list \<Rightarrow> app \<Rightarrow> app" where
  "answerAll a [] s = s"
| "answerAll a (rnd # rnds) s = answerAll a rnds (updateWordWeight a rnd s)"

text \<open>
  The state of a session on a fresh pool of \<open>n\<close> entries after \<open>k\<close> answers
  \<^verbatim>\<open>known\<close>: every entry has been divided once per occurrence, at most three times,
  and the session goes on, with a current word that can still be divided, until all
  \<open>3 * n\<close> answers are given.
\<close>

definition knownInv :: "nat \<Rightarrow> nat \<Rightarrow> app \<Rightarrow> bool" where
  "knownInv n k s \<longleftrightarrow>
     length (wordList s) = n \<and>
     (\<forall>w \<in> set (wordList s). occurrences w \<le> 3 \<and> weight w = 1 / 2.16 ^ occurrences w) \<and>
     sum_list (map occurrences (wordList s)) = k \<and>
     (if k < 3 * n
      then currentView s = Learning \<and>
        (\<exists>i. currentWord s = Some i \<and> i < n \<and> occurrences (wordList s ! i) \<le> 2)
      else currentView s = Result)"

subsection \<open>Sample data\<close>

definition apple :: Word where
  "apple = \<lparr>word = Some ''apple'', part_of_speech = Some ''n.'',
            explanation = Some [''a fruit'']\<rparr>"

definition pear :: Word where
  "pear = \<lparr>word = Some ''pear'', part_of_speech = Some ''n.'',
           explanation = Some [''another fruit'']\<rparr>"

text \<open>The state of a freshly loaded page (lines 6-23).\<close>

definition initial :: app where
  "initial = \<lparr>currentView = Home, jsonInput = [], wordList = [], errorMessage = [],
              successMessage = NoSuccess, currentWord = None, isCardFlipped = False,
              learningResults = []\<rparr>"

text \<open>The fresh page after the import of two records.\<close>

definition twoWords :: app where
  "twoWords = snd (addWords (Records [apple, pear]) initial)"

text \<open>
  A pool with one entry exactly at the threshold and one just below it (written down
  directly: no sequence of answers leads from weight 1 to exactly 0.1).
\<close>

definition atThreshold :: app where
  "atThreshold = initial\<lparr>wordList := [(withWeight apple)\<lparr>weight := 0.1\<rparr>,
                                        (withWeight pear)\<lparr>weight := 0.0999\<rparr>]\<rparr>"


text \<open>
  A one-word session answered \<^verbatim>\<open>known\<close> three times, which ends it, followed by the
  return to the home view.
\<close>

definition mastered :: app where
  "mastered = backToHome
     (updateWordWeight Known 0.5 (updateWordWeight Known 0.5 (updateWordWeight Known 0.5
        (startLearning 0.5 (initial\<lparr>wordList := [withWeight apple]\<rparr>)))))"

text \<open>
  The specification's sorting example, written down directly: three assessed entries
  with average weights 0.5, 2 and 1, and one entry never presented.
\<close>

definition threeAssessed :: app where
  "threeAssessed = initial\<lparr>wordList :=
     [(withWeight apple)\<lparr>occurrences := 1, totalWeight := 0.5\<rparr>,
      (withWeight pear)\<lparr>occurrences := 1, totalWeight := 2.0\<rparr>,
      (withWeight apple)\<lparr>occurrences := 1, totalWeight := 1.0\<rparr>,
      withWeight pear]\<rparr>"

section \<open>Properties\<close>

subsection \<open>Selection does not touch the pool\<close>

lemma wordList_endLearning [simp]: "wordList (endLearning s) = wordList s"
  by (simp add: endLearning_def)

lemma wordList_selectNextWord [simp]: "wordList (selectNextWord rnd s) = wordList s"
  by (simp add: selectNextWord_def Let_def split: option.splits)

lemma wordList_startLearning [simp]: "wordList (startLearning rnd s) = wordList s"
  by (simp add: startLearning_def)

lemma eligibleWords_iff:
  "i \<in> set (eligibleWords wl) \<longleftrightarrow> i < length wl \<and> 0.1 \<le> weight (wl ! i)"
  by (auto simp: eligibleWords_def)

lemma walk_Some_mem: "walk wl r c refs = Some i \<Longrightarrow> i \<in> set refs"
  by (induction refs arbitrary: c) (auto simp: Let_def split: if_splits)

lemma firstOrNull_mem: "refs \<noteq> [] \<Longrightarrow> \<exists>i. firstOrNull refs = Some i \<and> i \<in> set refs"
  by (cases refs) (auto simp: firstOrNull_def)

lemma selectNextWord_eligible:
  assumes "eligibleWords (wordList s) \<noteq> []"
  shows "\<exists>i. currentWord (selectNextWord rnd s) = Some i \<and>
           i \<in> set (eligibleWords (wordList s)) \<and>
           currentView (selectNextWord rnd s) = currentView s \<and>
           learningResults (selectNextWord rnd s) = learningResults s"
  using assms firstOrNull_mem[OF assms]
  by (auto simp: selectNextWord_def Let_def dest: walk_Some_mem split: option.splits)

lemma selectNextWord_none:
  assumes "eligibleWords (wordList s) = []"
  shows "selectNextWord rnd s = endLearning s"
  using assms by (simp add: selectNextWord_def)

text \<open>
  The reading of a reference as a position is sound: every handler keeps
  \<^verbatim>\<open>currentWord\<close> inside the pool, and the fresh page has no current word.
\<close>

lemma currentWordInPool_endLearning:
  "currentWordInPool s \<Longrightarrow> currentWordInPool (endLearning s)"
  by (simp add: currentWordInPool_def endLearning_def split: option.splits)

lemma currentWordInPool_selectNextWord:
  assumes "currentWordInPool s"
  shows "currentWordInPool (selectNextWord rnd s)"
proof (cases "eligibleWords (wordList s) = []")
  case True
  with assms show ?thesis
    by (simp add: selectNextWord_none currentWordInPool_endLearning)
next
  case False
  from selectNextWord_eligible[OF False, of rnd] show ?thesis
    by (auto simp: currentWordInPool_def eligibleWords_iff)
qed

lemma currentWordInPool_startLearning:
  assumes "currentWordInPool s"
  shows "currentWordInPool (startLearning rnd s)"
proof -
  from assms have "currentWordInPool (s\<lparr>learningResults := [], currentView := Learning\<rparr>)"
    by (simp add: currentWordInPool_def split: option.splits)
  with assms show ?thesis
    by (simp add: startLearning_def currentWordInPool_selectNextWord)
qed

lemma currentWordInPool_updateWordWeight:
  assumes "currentWordInPool s"
  shows "currentWordInPool (updateWordWeight a rnd s)"
proof (cases "currentWord s")
  case None
  with assms show ?thesis by (simp add: updateWordWeight_def)
next
  case (Some i)
  with assms have "currentWordInPool
      (s\<lparr>wordList := (wordList s)[i := assessWord a (wordList s ! i)], isCardFlipped := False\<rparr>)"
    by (simp add: currentWordInPool_def)
  with Some show ?thesis
    by (simp add: updateWordWeight_def currentWordInPool_selectNextWord)
qed

lemma currentWordInPool_restartLearning:
  assumes "currentWordInPool s"
  shows "currentWordInPool (restartLearning rnd s)"
proof -
  from assms have "currentWordInPool
      (s\<lparr>wordList := map resetWord (wordList s), learningResults := []\<rparr>)"
    by (simp add: currentWordInPool_def split: option.splits)
  then show ?thesis
    by (simp add: restartLearning_def currentWordInPool_startLearning)
qed

lemma currentWordInPool_addWords:
  "currentWordInPool s \<Longrightarrow> currentWordInPool (snd (addWords p s))"
  by (cases p) (auto simp: addWords_def currentWordInPool_def Let_def split: option.splits)

lemma currentWordInPool_backToHome:
  "currentWordInPool s \<Longrightarrow> currentWordInPool (backToHome s)"
  by (simp add: currentWordInPool_def backToHome_def split: option.splits)

lemma currentWordInPool_initial: "currentWordInPool initial"
  by (simp add: currentWordInPool_def initial_def)



subsection \<open>The selection walk\<close>











subsection \<open>The eligibility threshold\<close>

text \<open>
  C4. An entry is among the eligible ones exactly when its weight is at least 0.1: at
  exactly 0.1 it is, strictly below it is not, and then \<^verbatim>\<open>selectNextWord\<close> does not
  choose it.
\<close>

theorem eligible_threshold:
  "(i \<in> set (eligibleWords wl) \<longleftrightarrow> i < length wl \<and> weight (wl ! i) \<ge> 0.1) \<and>
   (i < length wl \<and> weight (wl ! i) = 0.1 \<longrightarrow> i \<in> set (eligibleWords wl)) \<and>
   (weight (wl ! i) < 0.1 \<longrightarrow> i \<notin> set (eligibleWords wl)) \<and>
   (weight (wl ! i) < 0.1 \<and> eligibleWords wl \<noteq> [] \<and> wordList s = wl \<longrightarrow>
      currentWord (selectNextWord rnd s) \<noteq> Some i)"
proof -
  have "currentWord (selectNextWord rnd s) \<noteq> Some i"
    if "weight (wl ! i) < 0.1" "eligibleWords wl \<noteq> []" "wordList s = wl"
  proof -
    from that selectNextWord_eligible[of s rnd] obtain j where
      "currentWord (selectNextWord rnd s) = Some j" "j \<in> set (eligibleWords wl)"
      by auto
    with that(1) show ?thesis by (auto simp: eligibleWords_iff)
  qed
  then show ?thesis by (auto simp: eligibleWords_iff)
qed

theorem eligible_threshold_witness:
  "weight (wordList atThreshold ! 0) = 0.1 \<and>
   weight (wordList atThreshold ! 1) < 0.1 \<and>
   0 \<in> set (eligibleWords (wordList atThreshold)) \<and>
   1 \<notin> set (eligibleWords (wordList atThreshold)) \<and>
   currentWord (selectNextWord 0.7 atThreshold) \<noteq> Some 1"
proof -
  have w0: "weight (wordList atThreshold ! 0) = 0.1" by code_simp
  have w1: "weight (wordList atThreshold ! 1) < 0.1" by code_simp
  have l: "0 < length (wordList atThreshold)" by code_simp
  have ne: "eligibleWords (wordList atThreshold) \<noteq> []" by code_simp
  from eligible_threshold[of 0 "wordList atThreshold" atThreshold "0.7"]
    eligible_threshold[of 1 "wordList atThreshold" atThreshold "0.7"] w0 w1 l ne
  show ?thesis by simp
qed

subsection \<open>Assessment\<close>




subsection \<open>Restart\<close>

text \<open>
  C9. From any state, \<^verbatim>\<open>restartLearning\<close> leaves a pool in which every entry has
  weight 1, no occurrences and total weight 0 (the other fields are kept), and
  \<^verbatim>\<open>endLearning\<close> right after it stores an empty list of results.
\<close>

theorem restartLearning_reset:
  "wordList (restartLearning rnd s) = map resetWord (wordList s) \<and>
   (\<forall>w \<in> set (wordList (restartLearning rnd s)).
      weight w = 1.0 \<and> occurrences w = 0 \<and> totalWeight w = 0) \<and>
   learningResults (endLearning (restartLearning rnd s)) = []"
proof -
  have wl: "wordList (restartLearning rnd s) = map resetWord (wordList s)"
    by (simp add: restartLearning_def)
  have fresh: "\<forall>w \<in> set (map resetWord (wordList s)).
      weight w = 1.0 \<and> occurrences w = 0 \<and> totalWeight w = 0"
    by (simp add: resetWord_def)
  then have "filter (\<lambda>w. occurrences w > 0) (map resetWord (wordList s)) = []"
    by (simp add: filter_empty_conv)
  then have "learningResults (endLearning (restartLearning rnd s)) = []"
    by (simp add: endLearning_def wl)
  with wl fresh show ?thesis by simp
qed

theorem restartLearning_reset_witness:
  "weight (wordList (updateWordWeight Known 0.3 (selectNextWord 0.7 twoWords)) ! 1) \<noteq> 1 \<and>
   wordList (restartLearning 0.5 (updateWordWeight Known 0.3 (selectNextWord 0.7 twoWords)))
     = [withWeight apple, withWeight pear] \<and>
   learningResults (endLearning
     (restartLearning 0.5 (updateWordWeight Known 0.3 (selectNextWord 0.7 twoWords)))) = []"
proof -
  let ?s = "updateWordWeight Known 0.3 (selectNextWord 0.7 twoWords)"
  have w: "weight (wordList ?s ! 1) \<noteq> 1" by code_simp
  have m: "map resetWord (wordList ?s) = [withWeight apple, withWeight pear]" by code_simp
  from restartLearning_reset[of "0.5" ?s] w m show ?thesis by simp
qed

subsection \<open>Results\<close>

lemma compareFn_le_0: "compareFn a b \<le> 0 \<longleftrightarrow> unfamiliarity b \<le> unfamiliarity a"
  by (simp add: compareFn_def)

lemma mset_insertResult: "mset (insertResult a bs) = add_mset a (mset bs)"
  by (induction bs) simp_all

lemma mset_sortResults: "mset (sortResults rs) = mset rs"
  by (induction rs) (simp_all add: mset_insertResult)

lemma set_insertResult: "set (insertResult a bs) = insert a (set bs)"
  by (induction bs) auto

lemma sorted_insertResult:
  "sorted_wrt (\<lambda>a b. unfamiliarity b \<le> unfamiliarity a) bs \<Longrightarrow>
   sorted_wrt (\<lambda>a b. unfamiliarity b \<le> unfamiliarity a) (insertResult a bs)"
  by (induction bs) (auto simp: set_insertResult compareFn_le_0)

lemma sorted_sortResults:
  "sorted_wrt (\<lambda>a b. unfamiliarity b \<le> unfamiliarity a) (sortResults rs)"
  by (induction rs) (simp_all add: sorted_insertResult)

lemma sortResults_example:
  assumes "map unfamiliarity rs = [0.5, 2.0, 1.0]"
  shows "map unfamiliarity (sortResults rs) = [2.0, 1.0, 0.5]"
proof -
  from assms obtain a b c where rs: "rs = [a, b, c]"
    and u: "unfamiliarity a = 0.5" "unfamiliarity b = 2.0" "unfamiliarity c = 1.0"
    by (auto simp: map_eq_Cons_conv)
  show ?thesis by (simp add: rs u compareFn_def)
qed

text \<open>
  C3. The results stored by \<^verbatim>\<open>endLearning\<close> are, up to order, the results built
  from the pool entries with \<^verbatim>\<open>occurrences > 0\<close>, one for each such entry and none for
  the others; each has \<^verbatim>\<open>unfamiliarity = totalWeight / occurrences\<close> of its entry; the
  list is in descending order of unfamiliarity. In particular results with
  unfamiliarity 0.5, 2, 1 (in pool order) come out in the order 2, 1, 0.5.
\<close>

theorem endLearning_results:
  "mset (learningResults (endLearning s)) =
     mset (map toResult (filter (\<lambda>w. 0 < occurrences w) (wordList s))) \<and>
   length (learningResults (endLearning s)) =
     length (filter (\<lambda>w. 0 < occurrences w) (wordList s)) \<and>
   (\<forall>r \<in> set (learningResults (endLearning s)).
      \<exists>w \<in> set (wordList s). 0 < occurrences w \<and> result_word r = word w \<and>
         result_occurrences r = occurrences w \<and> result_totalWeight r = totalWeight w \<and>
         unfamiliarity r = totalWeight w / real (occurrences w)) \<and>
   sorted_wrt (\<lambda>a b. unfamiliarity b \<le> unfamiliarity a) (learningResults (endLearning s)) \<and>
   (map unfamiliarity (map toResult (filter (\<lambda>w. 0 < occurrences w) (wordList s)))
      = [0.5, 2.0, 1.0] \<longrightarrow>
    map unfamiliarity (learningResults (endLearning s)) = [2.0, 1.0, 0.5])"
proof -
  let ?raw = "map toResult (filter (\<lambda>w. 0 < occurrences w) (wordList s))"
  have res: "learningResults (endLearning s) = sortResults ?raw"
    by (simp add: endLearning_def)
  have m: "mset (sortResults ?raw) = mset ?raw"
    by (rule mset_sortResults)
  have len: "length (sortResults ?raw) = length (filter (\<lambda>w. 0 < occurrences w) (wordList s))"
    using mset_eq_length[OF m] by simp
  have each: "\<exists>w \<in> set (wordList s). 0 < occurrences w \<and> result_word r = word w \<and>
         result_occurrences r = occurrences w \<and> result_totalWeight r = totalWeight w \<and>
         unfamiliarity r = totalWeight w / real (occurrences w)"
    if "r \<in> set (sortResults ?raw)" for r
  proof -
    from that mset_eq_setD[OF m] have "r \<in> set ?raw" by simp
    then obtain w where "w \<in> set (wordList s)" "0 < occurrences w" "r = toResult w"
      by auto
    then show ?thesis by (auto simp: toResult_def)
  qed
  have ex: "map unfamiliarity (sortResults ?raw) = [2.0, 1.0, 0.5]"
    if "map unfamiliarity ?raw = [0.5, 2.0, 1.0]"
    using that by (rule sortResults_example)
  from m len each sorted_sortResults[of ?raw] ex show ?thesis
    unfolding res by blast
qed

theorem endLearning_results_witness:
  "map unfamiliarity (map toResult (filter (\<lambda>w. 0 < occurrences w) (wordList threeAssessed)))
     = [0.5, 2.0, 1.0] \<and>
   length (wordList threeAssessed) = 4 \<and>
   map unfamiliarity (learningResults (endLearning threeAssessed)) = [2.0, 1.0, 0.5] \<and>
   map result_word (learningResults (endLearning threeAssessed))
     = [Some ''pear'', Some ''apple'', Some ''apple'']"
proof -
  have a: "map unfamiliarity (map toResult (filter (\<lambda>w. 0 < occurrences w) (wordList threeAssessed)))
     = [0.5, 2.0, 1.0]" by code_simp
  have l: "length (wordList threeAssessed) = 4" by code_simp
  have w: "map result_word (learningResults (endLearning threeAssessed))
     = [Some ''pear'', Some ''apple'', Some ''apple'']" by code_simp
  from endLearning_results[of threeAssessed] a l w show ?thesis by simp
qed

subsection \<open>Import\<close>

lemma falsy_iff: "falsy x \<longleftrightarrow> x = None \<or> x = Some []"
  by (cases x) (simp_all add: falsy_def)

lemma checkExplanations_None: "checkExplanations index expIndex exps = None \<longleftrightarrow> [] \<notin> set exps"
  by (induction exps arbitrary: expIndex) auto


lemma checkWord_None: "checkWord index w = None \<longleftrightarrow> \<not> invalidRecord w"
  by (auto simp: checkWord_def invalidRecord_def falsy_iff checkExplanations_None
      split: option.splits)

lemma checkWord_Some_invalid: "checkWord index w = Some e \<Longrightarrow> invalidRecord w"
  using checkWord_None[of index w] by auto

lemma checkWords_None: "checkWords index ws = None \<longleftrightarrow> (\<forall>w \<in> set ws. \<not> invalidRecord w)"
  by (induction ws arbitrary: index)
    (auto simp: checkWord_None dest: checkWord_Some_invalid split: option.splits)





lemma addWords_Records_fst: "fst (addWords (Records ws) s) = checkWords 0 ws"
  by (simp add: addWords_def Let_def split: option.splits)




text \<open>
  C8. When no record is to be rejected, \<^verbatim>\<open>addWords\<close> does not throw; the pool keeps
  its old entries at their positions, unchanged, and gets one new entry per record
  behind them, in order, with the record's fields, weight 1, no occurrences and total
  weight 0. A record equal to an older one gets an entry of its own.
\<close>

theorem addWords_appends:
  assumes "\<forall>w \<in> set ws. \<not> invalidRecord w"
  shows "fst (addWords (Records ws) s) = None \<and>
    length (wordList (snd (addWords (Records ws) s))) = length (wordList s) + length ws \<and>
    (\<forall>k<length (wordList s). wordList (snd (addWords (Records ws) s)) ! k = wordList s ! k) \<and>
    (\<forall>k<length ws.
       word (wordList (snd (addWords (Records ws) s)) ! (length (wordList s) + k)) = word (ws ! k) \<and>
       part_of_speech (wordList (snd (addWords (Records ws) s)) ! (length (wordList s) + k))
         = part_of_speech (ws ! k) \<and>
       explanation (wordList (snd (addWords (Records ws) s)) ! (length (wordList s) + k))
         = explanation (ws ! k) \<and>
       weight (wordList (snd (addWords (Records ws) s)) ! (length (wordList s) + k)) = 1.0 \<and>
       occurrences (wordList (snd (addWords (Records ws) s)) ! (length (wordList s) + k)) = 0 \<and>
       totalWeight (wordList (snd (addWords (Records ws) s)) ! (length (wordList s) + k)) = 0)"
proof -
  from assms have ok: "checkWords 0 ws = None" by (simp add: checkWords_None)
  then have wl: "wordList (snd (addWords (Records ws) s)) = wordList s @ map withWeight ws"
    by (simp add: addWords_def Let_def)
  from ok have "fst (addWords (Records ws) s) = None" by (simp add: addWords_Records_fst)
  then show ?thesis
    unfolding wl by (simp add: nth_append withWeight_def)
qed

theorem addWords_appends_witness:
  "\<not> invalidRecord apple \<and>
   fst (addWords (Records [apple, apple]) twoWords) = None \<and>
   map word (wordList (snd (addWords (Records [apple, apple]) twoWords)))
     = [Some ''apple'', Some ''pear'', Some ''apple'', Some ''apple''] \<and>
   map weight (wordList (snd (addWords (Records [apple, apple]) twoWords))) = [1, 1, 1, 1]"
proof -
  have v: "\<forall>w \<in> set [apple, apple]. \<not> invalidRecord w" by code_simp
  have a: "map word (wordList (snd (addWords (Records [apple, apple]) twoWords)))
     = [Some ''apple'', Some ''pear'', Some ''apple'', Some ''apple'']" by code_simp
  have b: "map weight (wordList (snd (addWords (Records [apple, apple]) twoWords))) = [1, 1, 1, 1]"
    by code_simp
  have i: "\<not> invalidRecord apple" by code_simp
  from addWords_appends[OF v, of twoWords] i a b show ?thesis by simp
qed

subsection \<open>Starting a session\<close>

text \<open>
  C6 (as amended). On an empty pool \<^verbatim>\<open>startLearning\<close> returns at once and changes
  nothing: the session is not finished and no results are produced. On a pool with an
  eligible entry it clears the results, shows the learning view and selects a first
  word among the eligible ones. On a pool that is not empty but has no eligible entry
  it ends the session at once.
\<close>

theorem startLearning_cases:
  "(wordList s = [] \<longrightarrow> startLearning rnd s = s) \<and>
   (eligibleWords (wordList s) \<noteq> [] \<longrightarrow>
      currentView (startLearning rnd s) = Learning \<and>
      learningResults (startLearning rnd s) = [] \<and>
      isCardFlipped (startLearning rnd s) = False \<and>
      (\<exists>i. i \<in> set (eligibleWords (wordList s)) \<and> currentWord (startLearning rnd s) = Some i)) \<and>
   (wordList s \<noteq> [] \<and> eligibleWords (wordList s) = [] \<longrightarrow>
      currentView (startLearning rnd s) = Result \<and>
      learningResults (startLearning rnd s) = learningResults (endLearning s) \<and>
      currentWord (startLearning rnd s) = currentWord s)"
proof -
  let ?s' = "s\<lparr>learningResults := [], currentView := Learning\<rparr>"
  have empty: "startLearning rnd s = s" if "wordList s = []"
    using that by (simp add: startLearning_def)
  have some: "currentView (startLearning rnd s) = Learning \<and>
      learningResults (startLearning rnd s) = [] \<and>
      isCardFlipped (startLearning rnd s) = False \<and>
      (\<exists>i. i \<in> set (eligibleWords (wordList s)) \<and> currentWord (startLearning rnd s) = Some i)"
    if ne: "eligibleWords (wordList s) \<noteq> []"
  proof -
    from ne have "wordList s \<noteq> []" by (auto simp: eligibleWords_def)
    then have st: "startLearning rnd s = selectNextWord rnd ?s'"
      by (simp add: startLearning_def)
    from ne have ne': "eligibleWords (wordList ?s') \<noteq> []" by simp
    have "isCardFlipped (selectNextWord rnd ?s') = False"
      using ne' by (simp add: selectNextWord_def Let_def split: option.splits)
    with selectNextWord_eligible[OF ne', of rnd] show ?thesis
      unfolding st by auto
  qed
  have none: "currentView (startLearning rnd s) = Result \<and>
      learningResults (startLearning rnd s) = learningResults (endLearning s) \<and>
      currentWord (startLearning rnd s) = currentWord s"
    if "wordList s \<noteq> []" "eligibleWords (wordList s) = []"
  proof -
    from that have "startLearning rnd s = endLearning ?s'"
      by (simp add: startLearning_def selectNextWord_none)
    then show ?thesis by (simp add: endLearning_def)
  qed
  from empty some none show ?thesis by blast
qed

theorem startLearning_cases_witness:
  "wordList initial = [] \<and> startLearning 0.5 initial = initial \<and>
   eligibleWords (wordList twoWords) \<noteq> [] \<and>
   currentView (startLearning 0.5 twoWords) = Learning \<and>
   currentWord (startLearning 0.5 twoWords) = Some 0 \<and>
   wordList mastered \<noteq> [] \<and> eligibleWords (wordList mastered) = [] \<and>
   currentView (startLearning 0.5 mastered) = Result"
proof -
  have a: "wordList initial = []" by code_simp
  have b: "eligibleWords (wordList twoWords) \<noteq> []" by code_simp
  have c: "currentWord (startLearning 0.5 twoWords) = Some 0" by code_simp
  have d: "wordList mastered \<noteq> []" by code_simp
  have e: "eligibleWords (wordList mastered) = []" by code_simp
  from startLearning_cases[of initial "0.5"] startLearning_cases[of twoWords "0.5"]
    startLearning_cases[of mastered "0.5"] a b c d e
  show ?thesis by simp
qed

text \<open>
  C6 as stated fails. On the empty pool of a fresh page the view stays the home view
  and there are no results. On the pool of a mastered one-word session no word is
  eligible, and the session ends at once instead of presenting a first word.
\<close>

theorem startLearning_empty_counterexample:
  "wordList initial = [] \<and>
   currentView (startLearning 0.5 initial) = Home \<and>
   learningResults (startLearning 0.5 initial) = [] \<and>
   wordList mastered \<noteq> [] \<and>
   currentView mastered = Home \<and>
   eligibleWords (wordList mastered) = [] \<and>
   currentView (startLearning 0.5 mastered) = Result"
  by code_simp

subsection \<open>Answering known until the session ends\<close>

lemma decayed_eligible:
  assumes "occurrences w \<le> 3" "weight w = 1 / 2.16 ^ occurrences w"
  shows "0.1 \<le> weight w \<longleftrightarrow> occurrences w \<le> 2"
proof -
  from assms(1) consider "occurrences w = 0" | "occurrences w = 1" | "occurrences w = 2"
    | "occurrences w = 3" by linarith
  then show ?thesis
    by cases (simp_all add: assms(2) power2_eq_square power3_eq_cube)
qed

lemma sum_list_bounded:
  fixes xs :: "nat list"
  assumes "\<forall>x \<in> set xs. x \<le> 3"
  shows "sum_list xs \<le> 3 * length xs"
  using assms by (induction xs) auto

lemma sum_list_full:
  fixes xs :: "nat list"
  assumes "\<forall>x \<in> set xs. x \<le> 3" "sum_list xs = 3 * length xs"
  shows "\<forall>x \<in> set xs. x = 3"
  using assms
proof (induction xs)
  case Nil
  then show ?case by simp
next
  case (Cons x xs)
  from Cons.prems(1) have b: "\<forall>y \<in> set xs. y \<le> 3" and x: "x \<le> 3" by simp_all
  from sum_list_bounded[OF b] Cons.prems(2) x have "x = 3" "sum_list xs = 3 * length xs"
    by simp_all
  with Cons.IH[OF b] show ?case by simp
qed

lemma sum_list_not_full:
  fixes xs :: "nat list"
  assumes "sum_list xs < 3 * length xs"
  shows "\<exists>i<length xs. xs ! i \<le> 2"
proof (rule ccontr)
  assume "\<not> ?thesis"
  then have "\<forall>i<length xs. 3 \<le> xs ! i" by (simp add: not_le Suc_le_eq numeral_3_eq_3 numeral_2_eq_2)
  then have "\<forall>x \<in> set xs. 3 \<le> x" by (auto simp: in_set_conv_nth)
  then have "3 * length xs \<le> sum_list xs" by (induction xs) auto
  with assms show False by simp
qed

lemma knownInv_step:
  assumes inv: "knownInv n k s" and k: "k < 3 * n"
  shows "knownInv n (Suc k) (updateWordWeight Known rnd s)"
proof -
  let ?wl = "wordList s"
  from inv k obtain i where len: "length ?wl = n"
    and all: "\<forall>w \<in> set ?wl. occurrences w \<le> 3 \<and> weight w = 1 / 2.16 ^ occurrences w"
    and sum: "sum_list (map occurrences ?wl) = k"
    and view: "currentView s = Learning"
    and cur: "currentWord s = Some i" and i: "i < n" and occ: "occurrences (?wl ! i) \<le> 2"
    by (auto simp: knownInv_def)
  let ?e = "assessWord Known (?wl ! i)"
  let ?wl' = "?wl[i := ?e]"
  let ?s1 = "s\<lparr>wordList := ?wl', isCardFlipped := False\<rparr>"
  have upd: "updateWordWeight Known rnd s = selectNextWord rnd ?s1"
    using cur by (simp add: updateWordWeight_def)
  have mem: "?wl ! i \<in> set ?wl" using i len by simp
  have e_occ: "occurrences ?e = Suc (occurrences (?wl ! i))"
    by (simp add: assessWord_def Let_def)
  have e_w: "weight ?e = 1 / 2.16 ^ occurrences ?e"
    using all mem by (simp add: assessWord_def applyAction_def Let_def)
  have all': "\<forall>w \<in> set ?wl'. occurrences w \<le> 3 \<and> weight w = 1 / 2.16 ^ occurrences w"
  proof
    fix w assume "w \<in> set ?wl'"
    then have "w = ?e \<or> w \<in> set ?wl"
      using set_update_subset_insert[of ?wl i ?e] by auto
    then show "occurrences w \<le> 3 \<and> weight w = 1 / 2.16 ^ occurrences w"
      using all e_w e_occ occ by auto
  qed
  have "map occurrences ?wl' = (map occurrences ?wl)[i := Suc (occurrences (?wl ! i))]"
    by (simp add: map_update e_occ)
  then have sum': "sum_list (map occurrences ?wl') = Suc k"
    using i len sum by (simp add: sum_list_update)
  have len': "length ?wl' = n" using len by simp
  have wl1: "wordList ?s1 = ?wl'" by simp
  show ?thesis
  proof (cases "Suc k < 3 * n")
    case True
    with sum' len' have "sum_list (map occurrences ?wl') < 3 * length (map occurrences ?wl')"
      by simp
    from sum_list_not_full[OF this] obtain j where j: "j < n" "occurrences (?wl' ! j) \<le> 2"
      using len' by auto
    then have "?wl' ! j \<in> set ?wl'" using len' by simp
    with all' j have "0.1 \<le> weight (?wl' ! j)"
      using decayed_eligible[of "?wl' ! j"] by blast
    with j len' have "j \<in> set (eligibleWords ?wl')" by (simp add: eligibleWords_iff)
    then have ne: "eligibleWords (wordList ?s1) \<noteq> []" by auto
    from selectNextWord_eligible[OF ne, of rnd] obtain c where
      c: "currentWord (selectNextWord rnd ?s1) = Some c" "c \<in> set (eligibleWords ?wl')"
       "currentView (selectNextWord rnd ?s1) = currentView ?s1" by auto
    from c(2) have cn: "c < n" "0.1 \<le> weight (?wl' ! c)"
      using len' by (simp_all add: eligibleWords_iff)
    then have "?wl' ! c \<in> set ?wl'" using len' by simp
    with all' cn have "occurrences (?wl' ! c) \<le> 2"
      using decayed_eligible[of "?wl' ! c"] by blast
    with c cn True len' all' sum' view show ?thesis
      unfolding upd knownInv_def by simp
  next
    case False
    with k have full: "Suc k = 3 * n" by simp
    have "\<forall>x \<in> set (map occurrences ?wl'). x \<le> 3" using all' by simp
    moreover have "sum_list (map occurrences ?wl') = 3 * length (map occurrences ?wl')"
      using sum' full len' by simp
    ultimately have "\<forall>x \<in> set (map occurrences ?wl'). x = 3" by (rule sum_list_full)
    then have three: "\<forall>w \<in> set ?wl'. occurrences w = 3" by simp
    have "\<not> 0.1 \<le> weight w" if "w \<in> set ?wl'" for w
      using that all' three decayed_eligible[of w] by auto
    then have "eligibleWords (wordList ?s1) = []"
      by (auto simp: eligibleWords_def filter_empty_conv)
    then have "selectNextWord rnd ?s1 = endLearning ?s1" by (rule selectNextWord_none)
    with full len' all' sum' show ?thesis
      unfolding upd knownInv_def by (simp add: endLearning_def)
  qed
qed

lemma knownInv_run:
  assumes "knownInv n k s" "k + length rnds \<le> 3 * n"
  shows "knownInv n (k + length rnds) (answerAll Known rnds s)"
  using assms
proof (induction rnds arbitrary: k s)
  case Nil
  then show ?case by simp
next
  case (Cons rnd rnds)
  from Cons.prems(2) have k: "k < 3 * n" by simp
  from knownInv_step[OF Cons.prems(1) k] have "knownInv n (Suc k) (updateWordWeight Known rnd s)" .
  from Cons.IH[OF this] Cons.prems(2) show ?case by simp
qed

lemma knownInv_start:
  assumes ne: "wordList s \<noteq> []"
    and fresh: "\<forall>w \<in> set (wordList s). weight w = 1 \<and> occurrences w = 0"
  shows "knownInv (length (wordList s)) 0 (startLearning rnd s)"
proof -
  let ?s' = "s\<lparr>learningResults := [], currentView := Learning\<rparr>"
  have st: "startLearning rnd s = selectNextWord rnd ?s'"
    using ne by (simp add: startLearning_def)
  from ne have "0 \<in> set (eligibleWords (wordList s))"
    using fresh by (simp add: eligibleWords_iff)
  then have ne': "eligibleWords (wordList ?s') \<noteq> []" by auto
  from selectNextWord_eligible[OF ne', of rnd] obtain c where
    c: "currentWord (selectNextWord rnd ?s') = Some c" "c \<in> set (eligibleWords (wordList s))"
      "currentView (selectNextWord rnd ?s') = Learning" by auto
  from c(2) have cn: "c < length (wordList s)" by (simp add: eligibleWords_iff)
  then have "occurrences (wordList s ! c) = 0" using fresh by simp
  moreover have "sum_list (map occurrences (wordList s)) = 0" using fresh by simp
  ultimately show ?thesis
    using c cn ne fresh unfolding st knownInv_def by simp
qed

text \<open>
  C5. Three divisions by 2.16 take the weight 1 below 0.1. On a fresh pool that is not
  empty (every weight 1, no occurrences), a session in which every word presented is
  answered \<^verbatim>\<open>known\<close> is still in the learning view after fewer than \<open>3 * n\<close> answers,
  whatever is drawn, and after exactly \<open>3 * n\<close> answers no entry is eligible, every
  weight is below 0.1 and the view is the result view.
\<close>

theorem known_answers_finish:
  assumes ne: "wordList s \<noteq> []"
    and fresh: "\<forall>w \<in> set (wordList s). weight w = 1 \<and> occurrences w = 0"
  shows "(applyAction Known ^^ 3) 1 < 0.1 \<and>
    (length rnds < 3 * length (wordList s) \<longrightarrow>
       currentView (answerAll Known rnds (startLearning rnd s)) = Learning) \<and>
    (length rnds = 3 * length (wordList s) \<longrightarrow>
       currentView (answerAll Known rnds (startLearning rnd s)) = Result \<and>
       eligibleWords (wordList (answerAll Known rnds (startLearning rnd s))) = [] \<and>
       (\<forall>w \<in> set (wordList (answerAll Known rnds (startLearning rnd s))).
          weight w < 0.1 \<and> occurrences w = 3))"
proof -
  let ?n = "length (wordList s)"
  let ?t = "answerAll Known rnds (startLearning rnd s)"
  have three: "(applyAction Known ^^ 3) 1 < 0.1"
    by (simp add: applyAction_def numeral_3_eq_3)
  have run: "knownInv ?n (length rnds) ?t" if "length rnds \<le> 3 * ?n"
    using knownInv_run[OF knownInv_start[OF ne fresh, of rnd], of rnds] that by simp
  have before: "currentView ?t = Learning" if "length rnds < 3 * ?n"
    using run that by (simp add: knownInv_def)
  have after: "currentView ?t = Result \<and> eligibleWords (wordList ?t) = [] \<and>
       (\<forall>w \<in> set (wordList ?t). weight w < 0.1 \<and> occurrences w = 3)"
    if full: "length rnds = 3 * ?n"
  proof -
    from run full have inv: "knownInv ?n (3 * ?n) ?t" by simp
    then have v: "currentView ?t = Result" and len: "length (wordList ?t) = ?n"
      and all: "\<forall>w \<in> set (wordList ?t). occurrences w \<le> 3 \<and> weight w = 1 / 2.16 ^ occurrences w"
      and sum: "sum_list (map occurrences (wordList ?t)) = 3 * ?n"
      by (simp_all add: knownInv_def)
    have "\<forall>x \<in> set (map occurrences (wordList ?t)). x \<le> 3" using all by simp
    moreover have "sum_list (map occurrences (wordList ?t)) = 3 * length (map occurrences (wordList ?t))"
      using sum len by simp
    ultimately have "\<forall>x \<in> set (map occurrences (wordList ?t)). x = 3" by (rule sum_list_full)
    then have three: "\<forall>w \<in> set (wordList ?t). occurrences w = 3" by simp
    have low: "weight w < 0.1" if "w \<in> set (wordList ?t)" for w
      using that all three decayed_eligible[of w] by auto
    then have "eligibleWords (wordList ?t) = []"
      by (auto simp: eligibleWords_def filter_empty_conv not_le)
    with v three low show ?thesis by blast
  qed
  from three before after show ?thesis by blast
qed

theorem known_answers_finish_witness:
  "wordList twoWords \<noteq> [] \<and>
   length (wordList twoWords) = 2 \<and>
   currentView (answerAll Known [0.9, 0.1, 0.5, 0.7, 0.3] (startLearning 0.2 twoWords)) = Learning \<and>
   currentView (answerAll Known [0.9, 0.1, 0.5, 0.7, 0.3, 0.6] (startLearning 0.2 twoWords)) = Result \<and>
   map occurrences (wordList (answerAll Known [0.9, 0.1, 0.5, 0.7, 0.3, 0.6] (startLearning 0.2 twoWords)))
     = [3, 3]"
proof -
  have ne: "wordList twoWords \<noteq> []" by code_simp
  have fresh: "\<forall>w \<in> set (wordList twoWords). weight w = 1 \<and> occurrences w = 0" by code_simp
  have l: "length (wordList twoWords) = 2" by code_simp
  have o: "map occurrences (wordList (answerAll Known [0.9, 0.1, 0.5, 0.7, 0.3, 0.6] (startLearning 0.2 twoWords)))
     = [3, 3]" by code_simp
  from known_answers_finish[OF ne fresh, of "[0.9, 0.1, 0.5, 0.7, 0.3]" "0.2"]
    known_answers_finish[OF ne fresh, of "[0.9, 0.1, 0.5, 0.7, 0.3, 0.6]" "0.2"] ne l o
  show ?thesis by simp
qed

end
